theory Spec2Isabelle
  imports Complex_Main "HOL-Library.AList" "HOL-Library.Char_ord" "HOL-Library.List_Lexorder"
begin

section \<open>The JavaScript values the dashboard computes with\<close>

subsection \<open>Numbers\<close>

text \<open>
  A JavaScript number is an IEEE-754 double. The embedding keeps its four kinds of value:
  \<open>NaN\<close>, the two infinities, and the finite numbers, a finite double being modelled by the
  rational it denotes. Arithmetic on finite values is exact here, which is what the double
  arithmetic does as long as the results are integers below \<open>2 ^ 53\<close> in magnitude (the
  completion counts of the dataset); rounding of other results is not modelled. The two zeros
  \<open>+0\<close> and \<open>-0\<close> are one value \<open>Fin 0\<close>: the program never divides by a count and
  prints both as \<open>0\<close>.
\<close>

datatype jsnum = NaN | NegInf | Fin rat | PosInf

text \<open>\<open>a + b\<close> on numbers.\<close>

fun js_add :: "jsnum \<Rightarrow> jsnum \<Rightarrow> jsnum" where
  "js_add NaN b = NaN"
| "js_add a NaN = NaN"
| "js_add PosInf NegInf = NaN"
| "js_add NegInf PosInf = NaN"
| "js_add PosInf b = PosInf"
| "js_add a PosInf = PosInf"
| "js_add NegInf b = NegInf"
| "js_add a NegInf = NegInf"
| "js_add (Fin a) (Fin b) = Fin (a + b)"

text \<open>\<open>a - b\<close> on numbers.\<close>

fun js_neg :: "jsnum \<Rightarrow> jsnum" where
  "js_neg NaN = NaN"
| "js_neg NegInf = PosInf"
| "js_neg PosInf = NegInf"
| "js_neg (Fin a) = Fin (- a)"

definition js_sub :: "jsnum \<Rightarrow> jsnum \<Rightarrow> jsnum" where
  "js_sub a b = js_add a (js_neg b)"

text \<open>
  \<open>a / n\<close> for a number \<open>a\<close> and an array length \<open>n\<close>, the only divisions of the program
  (\<open>total5 / last5.length\<close> and \<open>totalRange / yearCount\<close>). Dividing by the length \<open>0\<close>
  is IEEE division by \<open>+0\<close>; the program guards both divisions so that \<open>n\<close> is at least 1.
\<close>

fun js_div_len :: "jsnum \<Rightarrow> nat \<Rightarrow> jsnum" where
  "js_div_len NaN n = NaN"
| "js_div_len PosInf n = PosInf"
| "js_div_len NegInf n = NegInf"
| "js_div_len (Fin a) n =
     (if n = 0 then (if 0 < a then PosInf else if a < 0 then NegInf else NaN)
      else Fin (a / of_nat n))"

text \<open>\<open>a < b\<close> on numbers: every comparison with \<open>NaN\<close> is false.\<close>

fun js_lt :: "jsnum \<Rightarrow> jsnum \<Rightarrow> bool" where
  "js_lt NaN b = False"
| "js_lt a NaN = False"
| "js_lt a NegInf = False"
| "js_lt PosInf b = False"
| "js_lt NegInf b = True"
| "js_lt a PosInf = True"
| "js_lt (Fin a) (Fin b) = (a < b)"

text \<open>Truthiness of a number: \<open>NaN\<close> and zero are falsy. \<open>js_or0 a\<close> is \<open>a || 0\<close>.\<close>

definition truthy :: "jsnum \<Rightarrow> bool" where
  "truthy a = (a \<noteq> NaN \<and> a \<noteq> Fin 0)"

definition js_or0 :: "jsnum \<Rightarrow> jsnum" where
  "js_or0 a = (if truthy a then a else Fin 0)"

text \<open>
  \<open>Math.max(...vals)\<close>: the result starts at \<open>-Infinity\<close> (the value for no argument at
  all) and any \<open>NaN\<close> argument makes it \<open>NaN\<close>.
\<close>

definition js_max2 :: "jsnum \<Rightarrow> jsnum \<Rightarrow> jsnum" where
  "js_max2 a b = (if a = NaN \<or> b = NaN then NaN else if js_lt a b then b else a)"

definition Math_max :: "jsnum list \<Rightarrow> jsnum" where
  "Math_max vals = foldl js_max2 NegInf vals"

subsection \<open>Strings\<close>

text \<open>
  A string is a list of characters; the labels, digits, delimiters and quotes the program
  looks at are ASCII. \<open>dquote\<close> is the double quote character.
\<close>

definition dquote :: char where
  "dquote = CHR 0x22"

definition is_digit :: "char \<Rightarrow> bool" where
  "is_digit c = (c \<in> set ''0123456789'')"

definition digit_char :: "nat \<Rightarrow> char" where
  "digit_char d = ''0123456789'' ! d"

text \<open>
  \<open>String.prototype.trim\<close> and the \<open>Number\<close> coercion strip white space from both ends.
  The ASCII white space and line terminators are modelled (tab, line feed, vertical tab, form
  feed, carriage return, space); the non-ASCII ones of the language are not.
\<close>

definition is_ws :: "char \<Rightarrow> bool" where
  "is_ws c = (c \<in> set [CHR 0x09, CHR 0x0A, CHR 0x0B, CHR 0x0C, CHR 0x0D, CHR 0x20])"

definition trim :: "string \<Rightarrow> string" where
  "trim s = rev (dropWhile is_ws (rev (dropWhile is_ws s)))"

text \<open>\<open>toLowerCase\<close> on the ASCII letters.\<close>

definition lower_char :: "char \<Rightarrow> char" where
  "lower_char c = (if CHR ''A'' \<le> c \<and> c \<le> CHR ''Z'' then char_of (of_char c + (32::nat)) else c)"

definition toLowerCase :: "string \<Rightarrow> string" where
  "toLowerCase s = map lower_char s"

text \<open>\<open>s.includes(needle)\<close>: the needle occurs somewhere in \<open>s\<close>.\<close>

fun starts_with :: "string \<Rightarrow> string \<Rightarrow> bool" where
  "starts_with s [] = True"
| "starts_with [] (n # ns) = False"
| "starts_with (c # cs) (n # ns) = (c = n \<and> starts_with cs ns)"

fun str_includes :: "string \<Rightarrow> string \<Rightarrow> bool" where
  "str_includes [] needle = (needle = [])"
| "str_includes (c # cs) needle = (starts_with (c # cs) needle \<or> str_includes cs needle)"

text \<open>\<open>s.replaceAll('"', '""')\<close>.\<close>

definition double_quotes :: "string \<Rightarrow> string" where
  "double_quotes s = concat (map (\<lambda>c. if c = dquote then [dquote, dquote] else [c]) s)"

text \<open>\<open>arr.join(sep)\<close> on an array of strings.\<close>

fun join :: "string \<Rightarrow> string list \<Rightarrow> string" where
  "join sep [] = []"
| "join sep [x] = x"
| "join sep (x # y # ys) = x @ sep @ join sep (y # ys)"

subsection \<open>Numbers from strings and strings from numbers\<close>

text \<open>
  \<open>Number(s)\<close> on a string follows the grammar of numeric string literals: white space is
  trimmed, the empty string is \<open>0\<close>, and what is left is an optionally signed decimal literal
  (digits, an optional fraction, an optional exponent, or \<open>Infinity\<close>) or an unsigned
  hexadecimal, octal or binary integer literal; anything else is \<open>NaN\<close>.
\<close>

definition digit_in :: "nat \<Rightarrow> char \<Rightarrow> nat option" where
  "digit_in b c =
     (let v = (if is_digit c then Some (of_char c - (48::nat))
               else if CHR ''a'' \<le> c \<and> c \<le> CHR ''f'' then Some (of_char c - (87::nat))
               else if CHR ''A'' \<le> c \<and> c \<le> CHR ''F'' then Some (of_char c - (55::nat))
               else None)
      in case v of None \<Rightarrow> None | Some d \<Rightarrow> if d < b then Some d else None)"

definition digits_nat :: "nat \<Rightarrow> string \<Rightarrow> nat" where
  "digits_nat b ds = foldl (\<lambda>a c. a * b + (case digit_in b c of None \<Rightarrow> 0 | Some d \<Rightarrow> d)) 0 ds"

definition all_digits_in :: "nat \<Rightarrow> string \<Rightarrow> bool" where
  "all_digits_in b ds = (ds \<noteq> [] \<and> list_all (\<lambda>c. digit_in b c \<noteq> None) ds)"

definition radix_literal :: "string \<Rightarrow> nat option" where
  "radix_literal s =
     (case s of
        z # x # ds \<Rightarrow>
          (let b = (if x = CHR ''x'' \<or> x = CHR ''X'' then 16
                    else if x = CHR ''o'' \<or> x = CHR ''O'' then 8
                    else if x = CHR ''b'' \<or> x = CHR ''B'' then 2 else (0::nat))
           in if z = CHR ''0'' \<and> b \<noteq> 0 \<and> all_digits_in b ds then Some (digits_nat b ds) else None)
      | _ \<Rightarrow> None)"

definition pow10 :: "int \<Rightarrow> rat" where
  "pow10 e = (if 0 \<le> e then 10 ^ nat e else 1 / 10 ^ nat (- e))"

definition exponent_part :: "string \<Rightarrow> int option" where
  "exponent_part s =
     (case s of
        [] \<Rightarrow> Some 0
      | c # t \<Rightarrow>
          if c = CHR ''e'' \<or> c = CHR ''E'' then
            (let neg = (t \<noteq> [] \<and> hd t = CHR ''-'');
                 ds = (if t \<noteq> [] \<and> (hd t = CHR ''-'' \<or> hd t = CHR ''+'') then tl t else t)
             in if all_digits_in 10 ds
                then Some (if neg then - int (digits_nat 10 ds) else int (digits_nat 10 ds))
                else None)
          else None)"

definition unsigned_decimal :: "string \<Rightarrow> rat option" where
  "unsigned_decimal s =
     (let ip = takeWhile is_digit s;
          r1 = dropWhile is_digit s;
          dot = (r1 \<noteq> [] \<and> hd r1 = CHR ''.'');
          fp = (if dot then takeWhile is_digit (tl r1) else []);
          r2 = (if dot then dropWhile is_digit (tl r1) else r1)
      in if ip = [] \<and> fp = [] then None
         else (case exponent_part r2 of
                 None \<Rightarrow> None
               | Some e \<Rightarrow> Some (of_nat (digits_nat 10 (ip @ fp)) / 10 ^ length fp * pow10 e)))"

definition js_Number :: "string \<Rightarrow> jsnum" where
  "js_Number str =
     (let s = trim str in
      if s = [] then Fin 0
      else (case radix_literal s of
              Some n \<Rightarrow> Fin (of_nat n)
            | None \<Rightarrow>
                (let neg = (hd s = CHR ''-'');
                     body = (if hd s = CHR ''-'' \<or> hd s = CHR ''+'' then tl s else s)
                 in if body = ''Infinity'' then (if neg then NegInf else PosInf)
                    else (case unsigned_decimal body of
                            None \<Rightarrow> NaN
                          | Some q \<Rightarrow> Fin (if neg then - q else q)))))"

text \<open>
  The decimal digits of a natural number, and the string of a number as a template literal
  and \<open>join\<close> produce it. An integer prints as its decimal digits (below \<open>10 ^ 21\<close> in
  magnitude, where JavaScript switches to exponent notation). For a finite number that is
  not an integer the model prints the decimal expansion cut after 17 fractional digits;
  JavaScript prints the shortest decimal that reads back as the same double, which is the
  same string for short decimals such as \<open>2.5\<close> and may differ otherwise.
\<close>

fun nat_digits :: "nat \<Rightarrow> string" where
  "nat_digits n = (if n < 10 then [digit_char n] else nat_digits (n div 10) @ [digit_char (n mod 10)])"

declare nat_digits.simps [simp del]

fun frac_digits :: "rat \<Rightarrow> nat \<Rightarrow> string" where
  "frac_digits f 0 = []"
| "frac_digits f (Suc n) =
     (if f = 0 then []
      else (let d = nat \<lfloor>f * 10\<rfloor> in digit_char d # frac_digits (f * 10 - of_nat d) n))"

definition Number_toString :: "jsnum \<Rightarrow> string" where
  "Number_toString x =
     (case x of
        NaN \<Rightarrow> ''NaN''
      | PosInf \<Rightarrow> ''Infinity''
      | NegInf \<Rightarrow> ''-Infinity''
      | Fin q \<Rightarrow>
          (let a = \<bar>q\<bar>; ip = nat \<lfloor>a\<rfloor>; f = a - of_nat ip
           in (if q < 0 then ''-'' else []) @ nat_digits ip @
              (if f = 0 then [] else ''.'' @ frac_digits f 17)))"

text \<open>
  \<open>x.toFixed(d)\<close>: the integer \<open>n\<close> with \<open>n / 10 ^ d\<close> nearest to the magnitude of \<open>x\<close>
  (the larger one of two candidates), printed with \<open>d\<close> digits after the point and the sign
  of \<open>x\<close> in front; a value that is not finite prints as \<open>Number_toString\<close> does. (So
  does, in JavaScript, a magnitude of \<open>10 ^ 21\<close> and more, which the model prints in
  full.)
\<close>

definition toFixed :: "jsnum \<Rightarrow> nat \<Rightarrow> string" where
  "toFixed x d =
     (case x of
        Fin q \<Rightarrow>
          (let n = nat \<lfloor>\<bar>q\<bar> * 10 ^ d + 1 / 2\<rfloor>;
               m = nat_digits n;
               m' = (if d \<noteq> 0 \<and> length m \<le> d then replicate (d + 1 - length m) CHR ''0'' @ m else m);
               k = length m'
           in (if q < 0 then ''-'' else []) @
              (if d = 0 then m' else take (k - d) m' @ ''.'' @ drop (k - d) m'))
      | _ \<Rightarrow> Number_toString x)"

subsection \<open>Objects and arrays\<close>

text \<open>
  An object is the list of its own properties, key and value, in property order; the keys
  of an object are distinct. \<open>obj_get o k\<close> is \<open>o[k]\<close>, with \<open>None\<close> for
  \<open>undefined\<close>; \<open>Object_fromEntries\<close> adds the entries one by one, a later entry
  replacing the value of an earlier one with the same key.
\<close>

type_synonym 'v obj = "(string \<times> 'v) list"

definition Object_keys :: "'v obj \<Rightarrow> string list" where
  "Object_keys ob = map fst ob"

definition obj_get :: "'v obj \<Rightarrow> string \<Rightarrow> 'v option" where
  "obj_get ob k = map_of ob k"

definition Object_fromEntries :: "(string \<times> 'v) list \<Rightarrow> 'v obj" where
  "Object_fromEntries es = foldl (\<lambda>ob (k, v). AList.update k v ob) [] es"

text \<open>\<open>v || 0\<close> and \<open>v ?? 0\<close> for a property \<open>v\<close> that is a number or \<open>undefined\<close>.\<close>

fun or0 :: "jsnum option \<Rightarrow> jsnum" where
  "or0 None = Fin 0"
| "or0 (Some v) = js_or0 v"

fun nullish0 :: "jsnum option \<Rightarrow> jsnum" where
  "nullish0 None = Fin 0"
| "nullish0 (Some v) = v"

text \<open>\<open>s || ""\<close> for a property \<open>s\<close> that is a string or \<open>undefined\<close>.\<close>

fun or_empty :: "string option \<Rightarrow> string" where
  "or_empty None = []"
| "or_empty (Some s) = s"

text \<open>\<open>set.add(x)\<close> on a \<open>Set\<close>, kept as the list of its elements in insertion order.\<close>

definition Set_add :: "'a list \<Rightarrow> 'a \<Rightarrow> 'a list" where
  "Set_add s x = (if x \<in> set s then s else s @ [x])"

text \<open>\<open>arr.indexOf(x)\<close>: the first position of \<open>x\<close>, or \<open>-1\<close>.\<close>

fun indexOf :: "'a list \<Rightarrow> 'a \<Rightarrow> int" where
  "indexOf [] x = - 1"
| "indexOf (y # ys) x =
     (if y = x then 0 else (let i = indexOf ys x in if i = - 1 then - 1 else i + 1))"

text \<open>
  \<open>arr.slice(start, end)\<close> and \<open>arr.slice(start)\<close>: a negative index counts from the end
  of the array, and both indices are clamped to the array.
\<close>

definition rel_index :: "nat \<Rightarrow> int \<Rightarrow> nat" where
  "rel_index len i = (if i < 0 then nat (max (int len + i) 0) else min (nat i) len)"

definition slice :: "'a list \<Rightarrow> int \<Rightarrow> int \<Rightarrow> 'a list" where
  "slice xs s e =
     (let k = rel_index (length xs) s; final = rel_index (length xs) e
      in take (final - k) (drop k xs))"

definition slice_from :: "'a list \<Rightarrow> int \<Rightarrow> 'a list" where
  "slice_from xs s = drop (rel_index (length xs) s) xs"

text \<open>
  An index given as a number is first cut to an integer: \<open>NaN\<close> is \<open>0\<close>, a fraction is
  dropped, and an infinite index is clamped like any other.
\<close>

fun num_index :: "nat \<Rightarrow> jsnum \<Rightarrow> nat" where
  "num_index len NaN = 0"
| "num_index len NegInf = 0"
| "num_index len PosInf = len"
| "num_index len (Fin q) = rel_index len (if 0 \<le> q then \<lfloor>q\<rfloor> else \<lceil>q\<rceil>)"

definition slice_num :: "'a list \<Rightarrow> jsnum \<Rightarrow> jsnum \<Rightarrow> 'a list" where
  "slice_num xs s e =
     (let k = num_index (length xs) s; final = num_index (length xs) e
      in take (final - k) (drop k xs))"

text \<open>
  \<open>arr.sort(cmp)\<close>. The language requires the sort to be stable, and with a consistent
  comparator the result is then determined: the elements in ascending order of \<open>cmp\<close>, the
  ones that compare equal in the order they had. The model is the insertion sort that
  computes it: an element goes behind the elements it compares greater than, that is, those
  for which \<open>cmp\<close> is a positive number (a \<open>NaN\<close> from the comparator counts as \<open>0\<close>).
\<close>

fun js_positive :: "jsnum \<Rightarrow> bool" where
  "js_positive (Fin q) = (0 < q)"
| "js_positive PosInf = True"
| "js_positive NegInf = False"
| "js_positive NaN = False"

fun insort_by :: "('a \<Rightarrow> 'a \<Rightarrow> jsnum) \<Rightarrow> 'a \<Rightarrow> 'a list \<Rightarrow> 'a list" where
  "insort_by cmp x [] = [x]"
| "insort_by cmp x (y # ys) =
     (if js_positive (cmp x y) then y # insort_by cmp x ys else x # y # ys)"

definition Array_sort :: "('a \<Rightarrow> 'a \<Rightarrow> jsnum) \<Rightarrow> 'a list \<Rightarrow> 'a list" where
  "Array_sort cmp xs = foldr (insort_by cmp) xs []"

text \<open>
  \<open>arr.sort()\<close> without a comparator orders strings by their code units; here, by their
  characters.
\<close>

definition default_compare :: "string \<Rightarrow> string \<Rightarrow> jsnum" where
  "default_compare a b = (if a < b then Fin (- 1) else if b < a then Fin 1 else Fin 0)"

section \<open>The data pipeline of the dashboard\<close>

subsection \<open>Parsing and shaping: \<open>tidyRow\<close>\<close>

text \<open>
  The CSV parser hands \<open>tidyRow\<close> one object per data line, with the header names as keys
  and the cells, all strings, as values. \<open>tidyRow\<close> returns the record of a program: four
  trimmed text fields and the object \<open>years\<close> of the counts per academic year.
\<close>

record rec =
  dept :: string
  code :: string
  title :: string
  award :: string
  years :: "jsnum obj"

text \<open>
  The test \<open>/\d{4}-\d{2}/.test(k)\<close>: four digits, a dash and two digits, starting at any
  position of \<open>k\<close>.
\<close>

fun year_pattern_here :: "string \<Rightarrow> bool" where
  "year_pattern_here (a # b # c # d # e # f # g # rest) =
     (is_digit a \<and> is_digit b \<and> is_digit c \<and> is_digit d \<and> e = CHR ''-'' \<and> is_digit f \<and> is_digit g)"
| "year_pattern_here k = False"

fun year_pattern_test :: "string \<Rightarrow> bool" where
  "year_pattern_test [] = False"
| "year_pattern_test (c # cs) = (year_pattern_here (c # cs) \<or> year_pattern_test cs)"

definition tidyRow :: "string obj \<Rightarrow> rec" where
  "tidyRow row =
     (let ycols = filter year_pattern_test (Object_keys row);
          numericYears = Object_fromEntries
            (map (\<lambda>y. (y, js_or0 (case obj_get row y of None \<Rightarrow> Fin 0 | Some s \<Rightarrow> js_Number s))) ycols)
      in \<lparr>dept = trim (or_empty (obj_get row ''DEPT'')),
          code = trim (or_empty (obj_get row ''STATE CONTROL NUMBER'')),
          title = trim (or_empty (obj_get row ''PROGRAM TITLE'')),
          award = trim (or_empty (obj_get row ''AWARD TYPE'')),
          years = numericYears\<rparr>)"

subsection \<open>The deactivation assessor: \<open>assessRecDeact\<close>\<close>

definition REC_MIN_TOTAL_5Y :: jsnum where
  "REC_MIN_TOTAL_5Y = Fin 15"

definition REC_MIN_AVG_5Y :: jsnum where
  "REC_MIN_AVG_5Y = Fin 3"

definition REC_MIN_PEAK_5Y :: jsnum where
  "REC_MIN_PEAK_5Y = Fin 3"

record deact =
  flag :: bool
  reason :: string

text \<open>The local constants of \<open>assessRecDeact\<close>, each under its name in the source.\<close>

definition last5_of :: "string list \<Rightarrow> string list" where
  "last5_of allYears = slice_from allYears (- 5)"

definition vals_of :: "'a rec_scheme \<Rightarrow> string list \<Rightarrow> jsnum list" where
  "vals_of row last5 = map (\<lambda>y. or0 (obj_get (years row) y)) last5"

definition total5_of :: "jsnum list \<Rightarrow> jsnum" where
  "total5_of vals = foldl js_add (Fin 0) vals"

definition avg5_of :: "jsnum \<Rightarrow> string list \<Rightarrow> jsnum" where
  "avg5_of total5 last5 = js_div_len total5 (length last5)"

definition zeros_of :: "jsnum list \<Rightarrow> nat" where
  "zeros_of vals = length (filter (\<lambda>v. v = Fin 0) vals)"

definition peak_of :: "jsnum list \<Rightarrow> jsnum" where
  "peak_of vals = Math_max vals"

definition assessRecDeact :: "'a rec_scheme \<Rightarrow> string list \<Rightarrow> deact" where
  "assessRecDeact row allYears =
     (let last5 = last5_of allYears in
      if length last5 = 0 then \<lparr>flag = False, reason = ''No years''\<rparr>
      else
        (let vals = vals_of row last5;
             total5 = total5_of vals;
             avg5 = avg5_of total5 last5;
             zeros = zeros_of vals;
             peak = peak_of vals;
             lowOverall = (js_lt total5 REC_MIN_TOTAL_5Y \<and> js_lt avg5 REC_MIN_AVG_5Y);
             manyZeros = (3 \<le> zeros);
             noPeak = js_lt peak REC_MIN_PEAK_5Y
         in if lowOverall \<or> manyZeros \<or> noPeak then
              \<lparr>flag = True,
               reason = join ''; ''
                 ((if lowOverall
                   then [''5y total '' @ Number_toString total5 @ '' & avg '' @ toFixed avg5 1 @
                         '' (<'' @ Number_toString REC_MIN_TOTAL_5Y @ '', <'' @
                         Number_toString REC_MIN_AVG_5Y @ '')'']
                   else []) @
                  (if manyZeros then [''zeros '' @ nat_digits zeros @ ''/5''] else []) @
                  (if noPeak
                   then [''max/year '' @ Number_toString peak @ '' (<'' @
                         Number_toString REC_MIN_PEAK_5Y @ '')'']
                   else []))\<rparr>
            else
              \<lparr>flag = False,
               reason = ''5y total '' @ Number_toString total5 @ '', avg '' @ toFixed avg5 1 @
                        '', max '' @ Number_toString peak @ '', zeros '' @ nat_digits zeros\<rparr>))"

subsection \<open>The year index and the visible range\<close>

text \<open>
  \<open>allYears\<close>: every key of every record's \<open>years\<close> is added to a \<open>Set\<close>, and the
  elements of the set are sorted as strings.
\<close>

definition allYears :: "'a rec_scheme list \<Rightarrow> string list" where
  "allYears rows =
     Array_sort default_compare
       (foldl (\<lambda>ys r. foldl Set_add ys (Object_keys (years r))) [] rows)"

text \<open>
  \<open>visibleYears\<close>: the range limits are \<open>null\<close> (here \<open>None\<close>) until the data has loaded,
  and labels chosen in the two selects afterwards. A limit that is \<open>null\<close> or the empty
  string is falsy.
\<close>

fun falsy_label :: "string option \<Rightarrow> bool" where
  "falsy_label None = True"
| "falsy_label (Some s) = (s = [])"

definition visibleYears :: "string list \<Rightarrow> string option \<Rightarrow> string option \<Rightarrow> string list" where
  "visibleYears allYrs rangeStart rangeEnd =
     (if length allYrs = 0 \<or> falsy_label rangeStart \<or> falsy_label rangeEnd then allYrs
      else
        (let i0 = indexOf allYrs (the rangeStart);
             i1 = indexOf allYrs (the rangeEnd)
         in if i0 = - 1 \<or> i1 = - 1 then allYrs
            else (let lo = (if i0 \<le> i1 then i0 else i1);
                      hi = (if i0 \<le> i1 then i1 else i0)
                  in slice allYrs lo (hi + 1))))"

subsection \<open>The main pipeline: \<open>filtered\<close>\<close>

text \<open>
  A row of the view is a record with its computed columns. \<open>attach\<close> is the function
  mapped over the records that pass the filters: the range total, the average per visible
  year, and the flag and reason of \<open>assessRecDeact\<close> on the full year index.
\<close>

record view_row = rec +
  totalRange :: jsnum
  avgPerYear :: jsnum
  recDeact :: bool
  recDeactReason :: string

definition attach :: "string list \<Rightarrow> string list \<Rightarrow> rec \<Rightarrow> view_row" where
  "attach visYrs allYrs r =
     (let yearCount = max 1 (length visYrs);
          totalRange = foldl (\<lambda>sum y. js_add sum (or0 (obj_get (years r) y))) (Fin 0) visYrs;
          avgPerYear = js_div_len totalRange yearCount;
          deact = assessRecDeact r allYrs
      in \<lparr>dept = dept r, code = code r, title = title r, award = award r, years = years r,
          totalRange = totalRange, avgPerYear = avgPerYear,
          recDeact = flag deact, recDeactReason = reason deact\<rparr>)"

text \<open>The comparator of the sort stage.\<close>

definition getVal :: "string \<Rightarrow> view_row \<Rightarrow> jsnum" where
  "getVal sortKey row =
     (if sortKey = ''totalRange'' then totalRange row
      else if sortKey = ''avgPerYear'' then avgPerYear row
      else nullish0 (obj_get (years row) sortKey))"

definition compare_rows :: "string \<Rightarrow> string \<Rightarrow> view_row \<Rightarrow> view_row \<Rightarrow> jsnum" where
  "compare_rows sortKey sortDir a b =
     (let av = getVal sortKey a; bv = getVal sortKey b
      in if sortDir = ''asc'' then js_sub av bv else js_sub bv av)"

definition sort_rows :: "string \<Rightarrow> string \<Rightarrow> view_row list \<Rightarrow> view_row list" where
  "sort_rows sortKey sortDir out = Array_sort (compare_rows sortKey sortDir) out"

text \<open>
  \<open>filtered\<close>, with the state it reads as arguments: the selections \<open>dept\<close> and
  \<open>award\<close> of the source are \<open>deptSel\<close> and \<open>awardSel\<close> here, \<open>visibleYears\<close>
  and \<open>allYears\<close> are \<open>visYrs\<close> and \<open>allYrs\<close>. The records are objects, so
  \<open>rows.filter(Boolean)\<close> keeps them all.
\<close>

definition filtered ::
  "rec list \<Rightarrow> string \<Rightarrow> string \<Rightarrow> string \<Rightarrow> string \<Rightarrow> string \<Rightarrow> string \<Rightarrow>
   string list \<Rightarrow> bool \<Rightarrow> string list \<Rightarrow> view_row list" where
  "filtered rows deptSel awardSel q sortKey sortDir topN visYrs recDeactOnly allYrs =
     (let out = rows;
          out = (if deptSel \<noteq> ''All'' then filter (\<lambda>r. dept r = deptSel) out else out);
          out = (if awardSel \<noteq> ''All'' then filter (\<lambda>r. award r = awardSel) out else out);
          out = (if trim q \<noteq> [] then
                   (let needle = toLowerCase q
                    in filter (\<lambda>r. str_includes (toLowerCase (title r)) needle \<or>
                                   str_includes (toLowerCase (award r)) needle \<or>
                                   str_includes (toLowerCase (code r)) needle) out)
                 else out);
          out = map (attach visYrs allYrs) out;
          out = (if recDeactOnly then filter recDeact out else out);
          out = sort_rows sortKey sortDir out;
          n = (if topN = ''All'' then Fin (of_nat (length out)) else js_Number topN)
      in slice_num out (Fin 0) n)"

subsection \<open>The export: \<open>downloadFilteredCsv\<close>\<close>

text \<open>
  The text that \<open>downloadFilteredCsv\<close> hands to the browser for download: the header line
  and one line per row of the view, joined by line feeds.
\<close>

definition export_line :: "string list \<Rightarrow> view_row \<Rightarrow> string" where
  "export_line visYrs r =
     (let ys = map (\<lambda>y. nullish0 (obj_get (years r) y)) visYrs;
          row = [dept r,
                 code r,
                 [dquote] @ double_quotes (title r) @ [dquote],
                 [dquote] @ double_quotes (award r) @ [dquote],
                 Number_toString (totalRange r),
                 toFixed (avgPerYear r) 2,
                 (if recDeact r then ''Yes'' else ''No'')] @ map Number_toString ys
      in join '','' row)"

definition downloadFilteredCsv :: "view_row list \<Rightarrow> string list \<Rightarrow> string" where
  "downloadFilteredCsv rows visYrs =
     (let header = [''DEPT'', ''STATE CONTROL NUMBER'', ''PROGRAM TITLE'', ''AWARD TYPE'',
                    ''TOTAL (Range)'', ''AVG / yr'', ''Rec Deact (last 5y)''] @ visYrs;
          lines = [join '','' header] @ map (export_line visYrs) rows
      in join [CHR 0x0A] lines)"

section \<open>Notions used to state the properties\<close>

text \<open>
  Sums of numbers: \<open>js_add\<close> is associative and commutative with \<open>Fin 0\<close> as its unit
  (\<open>NaN\<close> absorbs, and so does an infinity among finite numbers), so \<open>sum_list\<close> over
  numbers is the sum in any order.
\<close>

instantiation jsnum :: comm_monoid_add
begin

definition zero_jsnum :: jsnum where
  "zero_jsnum = Fin 0"

definition plus_jsnum :: "jsnum \<Rightarrow> jsnum \<Rightarrow> jsnum" where
  "plus_jsnum a b = js_add a b"

instance
proof
  fix a b c :: jsnum
  show "a + b + c = a + (b + c)"
    unfolding plus_jsnum_def by (cases a; cases b; cases c) simp_all
  show "a + b = b + a"
    unfolding plus_jsnum_def by (cases a; cases b) simp_all
  show "0 + a = a"
    unfolding plus_jsnum_def zero_jsnum_def by (cases a) simp_all
qed

end



definition count_value :: "jsnum \<Rightarrow> bool" where
  "count_value v = (case v of Fin q \<Rightarrow> 0 \<le> q \<and> q = of_int \<lfloor>q\<rfloor> | _ \<Rightarrow> False)"

text \<open>
  A reader of the exported format, to read a line of the export back: a line is split at
  the commas outside quotes, the quotes around a field are dropped and a doubled quote
  inside them is one quote; the fields are paired with the header names by position, and a
  field beyond the last header name belongs to no column.
\<close>

fun csv_fields :: "bool \<Rightarrow> string \<Rightarrow> string \<Rightarrow> string list" where
  "csv_fields inq cur [] = [cur]"
| "csv_fields inq cur (c # cs) =
     (if c = dquote then
        (case cs of
           d # ds \<Rightarrow> if inq \<and> d = dquote then csv_fields inq (cur @ [dquote]) ds
                     else csv_fields (\<not> inq) cur cs
         | [] \<Rightarrow> csv_fields (\<not> inq) cur cs)
      else if c = CHR '','' \<and> \<not> inq then cur # csv_fields False [] cs
      else csv_fields inq (cur @ [c]) cs)"

definition read_row :: "string \<Rightarrow> string \<Rightarrow> string obj" where
  "read_row header line = zip (csv_fields False [] header) (csv_fields False [] line)"

text \<open>The data of the examples.\<close>

definition scenario_rec :: rec where
  "scenario_rec = \<lparr>dept = [], code = [], title = [], award = [],
     years = [(''2019-20'', Fin 0), (''2020-21'', Fin 0), (''2021-22'', Fin 1),
              (''2022-23'', Fin 0), (''2023-24'', Fin 0)]\<rparr>"

definition scenario_index :: "string list" where
  "scenario_index = [''2019-20'', ''2020-21'', ''2021-22'', ''2022-23'', ''2023-24'']"




definition comma_rows :: "rec list" where
  "comma_rows =
     [\<lparr>dept = ''Arts, Media'', code = ''201'', title = ''Film'', award = ''AA'',
       years = [(''2023-24'', Fin 5)]\<rparr>]"

definition comma_view :: "view_row list" where
  "comma_view = filtered comma_rows ''All'' ''All'' [] ''totalRange'' ''desc'' ''All''
                  (allYears comma_rows) False (allYears comma_rows)"

definition export_header :: string where
  "export_header =
     ''DEPT,STATE CONTROL NUMBER,PROGRAM TITLE,AWARD TYPE,TOTAL (Range),AVG / yr,Rec Deact (last 5y),2023-24''"

section \<open>Facts about the arrays, objects and numbers\<close>

lemma indexOf_ge: "- 1 \<le> indexOf xs x"
  by (induction xs) (auto simp: Let_def)

lemma indexOf_absent: "indexOf xs x = - 1 \<longleftrightarrow> x \<notin> set xs"
proof (induction xs)
  case Nil
  then show ?case by simp
next
  case (Cons y ys)
  have "- 1 \<le> indexOf ys x" by (rule indexOf_ge)
  with Cons show ?case by (auto simp: Let_def)
qed


lemma fromEntries_snoc:
  "Object_fromEntries (es @ [(k, v)]) = AList.update k v (Object_fromEntries es)"
  by (simp add: Object_fromEntries_def)

lemma fromEntries_keys: "set (Object_keys (Object_fromEntries es)) = fst ` set es"
proof (induction es rule: rev_induct)
  case Nil
  then show ?case by (simp add: Object_fromEntries_def Object_keys_def)
next
  case (snoc e es)
  obtain k v where e: "e = (k, v)" by (cases e)
  from snoc show ?case
    by (auto simp: e fromEntries_snoc Object_keys_def AList.update_keys)
qed

lemma fromEntries_get_computed:
  "obj_get (Object_fromEntries (map (\<lambda>y. (y, g y)) ys)) k = (if k \<in> set ys then Some (g k) else None)"
proof (induction ys rule: rev_induct)
  case Nil
  then show ?case by (simp add: Object_fromEntries_def obj_get_def)
next
  case (snoc y ys)
  then show ?case
    by (simp add: fromEntries_snoc obj_get_def AList.update_conv')
qed

lemma obj_get_keys: "k \<in> set (Object_keys ob) \<longleftrightarrow> obj_get ob k \<noteq> None"
  by (simp add: Object_keys_def obj_get_def map_of_eq_None_iff)

lemma fromEntries_distinct: "distinct (Object_keys (Object_fromEntries es))"
proof (induction es rule: rev_induct)
  case Nil
  then show ?case by (simp add: Object_fromEntries_def Object_keys_def)
next
  case (snoc e es)
  obtain k v where e: "e = (k, v)" by (cases e)
  from snoc show ?case
    unfolding e fromEntries_snoc Object_keys_def by (rule AList.distinct_update)
qed

lemma set_update_subset: "set (AList.update k v al) \<subseteq> insert (k, v) (set al)"
  by (induction al) auto

lemma fromEntries_subset: "set (Object_fromEntries es) \<subseteq> set es"
proof (induction es rule: rev_induct)
  case Nil
  then show ?case by (simp add: Object_fromEntries_def)
next
  case (snoc e es)
  obtain k v where e: "e = (k, v)" by (cases e)
  from snoc set_update_subset [of k v "Object_fromEntries es"] show ?case
    by (auto simp: e fromEntries_snoc)
qed

text \<open>The sort keeps the elements, and keeps the order of elements that compare equal.\<close>

lemma set_insort_by: "set (insort_by cmp x ys) = insert x (set ys)"
  by (induction ys) auto


lemma Array_sort_Cons: "Array_sort cmp (x # xs) = insort_by cmp x (Array_sort cmp xs)"
  by (simp add: Array_sort_def)

lemma set_Array_sort: "set (Array_sort cmp xs) = set xs"
  by (induction xs) (simp_all add: Array_sort_def set_insort_by)






text \<open>
  With a comparator that is a total preorder on the elements, the result of the sort is in
  ascending order of the comparator.
\<close>

lemma insort_by_sorted:
  assumes asym: "\<And>a b. a \<in> A \<Longrightarrow> b \<in> A \<Longrightarrow> js_positive (cmp a b) \<Longrightarrow> \<not> js_positive (cmp b a)"
    and trans: "\<And>a b c. a \<in> A \<Longrightarrow> b \<in> A \<Longrightarrow> c \<in> A \<Longrightarrow>
                  \<not> js_positive (cmp a b) \<Longrightarrow> \<not> js_positive (cmp b c) \<Longrightarrow> \<not> js_positive (cmp a c)"
    and "x \<in> A" and "set ys \<subseteq> A"
    and "sorted_wrt (\<lambda>a b. \<not> js_positive (cmp a b)) ys"
  shows "sorted_wrt (\<lambda>a b. \<not> js_positive (cmp a b)) (insort_by cmp x ys)"
  using assms(3-)
proof (induction ys)
  case Nil
  then show ?case by simp
next
  case (Cons y ys)
  show ?case
  proof (cases "js_positive (cmp x y)")
    case True
    from Cons have "sorted_wrt (\<lambda>a b. \<not> js_positive (cmp a b)) (insort_by cmp x ys)" by simp
    moreover from True Cons.prems have "\<not> js_positive (cmp y x)" by (intro asym) auto
    ultimately show ?thesis using True Cons.prems by (auto simp: set_insort_by)
  next
    case False
    have "\<not> js_positive (cmp x z)" if "z \<in> set ys" for z
    proof (rule trans [of x y z])
      show "x \<in> A" "y \<in> A" "z \<in> A" using Cons.prems that by auto
      show "\<not> js_positive (cmp x y)" by (rule False)
      show "\<not> js_positive (cmp y z)" using Cons.prems that by auto
    qed
    with False Cons.prems show ?thesis by auto
  qed
qed

lemma Array_sort_sorted:
  assumes asym: "\<And>a b. a \<in> A \<Longrightarrow> b \<in> A \<Longrightarrow> js_positive (cmp a b) \<Longrightarrow> \<not> js_positive (cmp b a)"
    and trans: "\<And>a b c. a \<in> A \<Longrightarrow> b \<in> A \<Longrightarrow> c \<in> A \<Longrightarrow>
                  \<not> js_positive (cmp a b) \<Longrightarrow> \<not> js_positive (cmp b c) \<Longrightarrow> \<not> js_positive (cmp a c)"
    and "set xs \<subseteq> A"
  shows "sorted_wrt (\<lambda>a b. \<not> js_positive (cmp a b)) (Array_sort cmp xs)"
  using assms(3)
proof (induction xs)
  case Nil
  then show ?case by (simp add: Array_sort_def)
next
  case (Cons x xs)
  then have "sorted_wrt (\<lambda>a b. \<not> js_positive (cmp a b)) (Array_sort cmp xs)" by simp
  then have s: "sorted_wrt (\<lambda>a b. \<not> js_positive (cmp a b)) (Array_sort cmp xs)" .
  show ?case
    unfolding Array_sort_Cons
  proof (rule insort_by_sorted [where A = A])
    fix a b assume "a \<in> A" "b \<in> A" "js_positive (cmp a b)"
    then show "\<not> js_positive (cmp b a)" by (rule asym)
  next
    fix a b c assume "a \<in> A" "b \<in> A" "c \<in> A"
      "\<not> js_positive (cmp a b)" "\<not> js_positive (cmp b c)"
    then show "\<not> js_positive (cmp a c)" by (rule trans)
  next
    show "x \<in> A" using Cons.prems by simp
    show "set (Array_sort cmp xs) \<subseteq> A" using Cons.prems by (simp add: set_Array_sort)
    show "sorted_wrt (\<lambda>a b. \<not> js_positive (cmp a b)) (Array_sort cmp xs)" by (rule s)
  qed
qed

lemma js_sub_positive_iff:
  "a \<noteq> NaN \<Longrightarrow> b \<noteq> NaN \<Longrightarrow> js_positive (js_sub a b) \<longleftrightarrow> js_lt b a"
  by (cases a; cases b) (simp_all add: js_sub_def)

lemma js_lt_asym: "js_lt a b \<Longrightarrow> \<not> js_lt b a"
  by (cases a; cases b) simp_all

lemma js_lt_cotrans:
  "a \<noteq> NaN \<Longrightarrow> b \<noteq> NaN \<Longrightarrow> c \<noteq> NaN \<Longrightarrow> \<not> js_lt b a \<Longrightarrow> \<not> js_lt c b \<Longrightarrow> \<not> js_lt c a"
  by (cases a; cases b; cases c) simp_all







section \<open>Facts about the functions of the dashboard\<close>

lemma year_pattern_here_iff:
  "year_pattern_here k \<longleftrightarrow>
     (\<exists>a b c d f g rest. k = a # b # c # d # CHR ''-'' # f # g # rest \<and>
        is_digit a \<and> is_digit b \<and> is_digit c \<and> is_digit d \<and> is_digit f \<and> is_digit g)"
  by (cases k rule: year_pattern_here.cases) auto

lemma year_pattern_test_iff:
  "year_pattern_test k \<longleftrightarrow>
     (\<exists>pre a b c d f g rest. k = pre @ a # b # c # d # CHR ''-'' # f # g # rest \<and>
        is_digit a \<and> is_digit b \<and> is_digit c \<and> is_digit d \<and> is_digit f \<and> is_digit g)"
  (is "_ \<longleftrightarrow> ?R k")
proof (induction k)
  case Nil
  then show ?case by simp
next
  case (Cons x xs)
  have "?R (x # xs) \<longleftrightarrow> year_pattern_here (x # xs) \<or> ?R xs"
  proof
    assume "?R (x # xs)"
    then obtain pre a b c d f g rest where
      k: "x # xs = pre @ a # b # c # d # CHR ''-'' # f # g # rest" and
      dg: "is_digit a \<and> is_digit b \<and> is_digit c \<and> is_digit d \<and> is_digit f \<and> is_digit g"
      by blast
    show "year_pattern_here (x # xs) \<or> ?R xs"
    proof (cases pre)
      case Nil
      with k dg have "year_pattern_here (x # xs)" by (simp add: year_pattern_here_iff)
      then show ?thesis ..
    next
      case (Cons p ps)
      with k have "xs = ps @ a # b # c # d # CHR ''-'' # f # g # rest" by simp
      with dg have "?R xs" by blast
      then show ?thesis ..
    qed
  next
    assume "year_pattern_here (x # xs) \<or> ?R xs"
    then show "?R (x # xs)"
    proof
      assume "year_pattern_here (x # xs)"
      then obtain a b c d f g rest where
        "x # xs = [] @ a # b # c # d # CHR ''-'' # f # g # rest \<and>
         is_digit a \<and> is_digit b \<and> is_digit c \<and> is_digit d \<and> is_digit f \<and> is_digit g"
        unfolding year_pattern_here_iff by auto
      then show ?thesis by blast
    next
      assume "?R xs"
      then obtain pre a b c d f g rest where
        "x # xs = (x # pre) @ a # b # c # d # CHR ''-'' # f # g # rest \<and>
         is_digit a \<and> is_digit b \<and> is_digit c \<and> is_digit d \<and> is_digit f \<and> is_digit g"
        by auto
      then show ?thesis by blast
    qed
  qed
  with Cons show ?case by simp
qed

lemma tidyRow_years_get:
  "obj_get (years (tidyRow row)) k =
     (if k \<in> set (Object_keys row) \<and> year_pattern_test k
      then Some (js_or0 (case obj_get row k of None \<Rightarrow> Fin 0 | Some s \<Rightarrow> js_Number s))
      else None)"
  by (simp add: tidyRow_def Let_def fromEntries_get_computed)

lemma tidyRow_years_keys:
  "set (Object_keys (years (tidyRow row))) = {k \<in> set (Object_keys row). year_pattern_test k}"
  by (auto simp: tidyRow_def Let_def fromEntries_keys image_iff)

text \<open>
  The records that \<open>tidyRow\<close> makes, which are the only records the dashboard holds: the
  keys of \<open>years\<close> are distinct and no value is \<open>NaN\<close>.
\<close>

lemma tidyRow_record:
  "distinct (Object_keys (years (tidyRow row))) \<and> NaN \<notin> snd ` set (years (tidyRow row))"
proof
  show "distinct (Object_keys (years (tidyRow row)))"
    by (simp add: tidyRow_def Let_def fromEntries_distinct)
  show "NaN \<notin> snd ` set (years (tidyRow row))"
  proof
    assume "NaN \<in> snd ` set (years (tidyRow row))"
    then obtain k where "(k, NaN) \<in> set (years (tidyRow row))" by auto
    then have "(k, NaN) \<in> set (map (\<lambda>y. (y, js_or0 (case obj_get row y of None \<Rightarrow> Fin 0 | Some s \<Rightarrow> js_Number s)))
                 (filter year_pattern_test (Object_keys row)))"
      using fromEntries_subset by (fastforce simp: tidyRow_def Let_def)
    then show False by (auto simp: js_or0_def truthy_def split: if_splits)
  qed
qed











text \<open>
  The sort stage orders the rows by their sort-key value, ascending for the direction
  \<open>asc\<close> and descending otherwise, when no sort-key value is \<open>NaN\<close>.
\<close>

lemma sort_rows_ordered:
  assumes "\<forall>r\<in>set out. getVal sortKey r \<noteq> NaN"
  shows "sorted_wrt
           (\<lambda>a b. if sortDir = ''asc'' then \<not> js_lt (getVal sortKey b) (getVal sortKey a)
                   else \<not> js_lt (getVal sortKey a) (getVal sortKey b))
           (sort_rows sortKey sortDir out)"
proof -
  let ?A = "{r. getVal sortKey r \<noteq> NaN}"
  let ?cmp = "compare_rows sortKey sortDir"
  have c: "js_positive (?cmp a b) \<longleftrightarrow>
             (if sortDir = ''asc'' then js_lt (getVal sortKey b) (getVal sortKey a)
              else js_lt (getVal sortKey a) (getVal sortKey b))"
    if "a \<in> ?A" "b \<in> ?A" for a b
    using that by (simp add: compare_rows_def js_sub_positive_iff)
  have "sorted_wrt (\<lambda>a b. \<not> js_positive (?cmp a b)) (Array_sort ?cmp out)"
  proof (rule Array_sort_sorted [where A = ?A])
    show "set out \<subseteq> ?A" using assms by auto
  next
    fix a b assume "a \<in> ?A" "b \<in> ?A" "js_positive (?cmp a b)"
    then show "\<not> js_positive (?cmp b a)"
      by (auto simp: c dest: js_lt_asym split: if_splits)
  next
    fix a b d assume "a \<in> ?A" "b \<in> ?A" "d \<in> ?A"
      "\<not> js_positive (?cmp a b)" "\<not> js_positive (?cmp b d)"
    then show "\<not> js_positive (?cmp a d)"
      using js_lt_cotrans [of "getVal sortKey a" "getVal sortKey b" "getVal sortKey d"]
        js_lt_cotrans [of "getVal sortKey d" "getVal sortKey b" "getVal sortKey a"]
      by (auto simp: c split: if_splits)
  qed
  moreover have "set (Array_sort ?cmp out) \<subseteq> ?A"
    using assms by (auto simp: set_Array_sort)
  ultimately show ?thesis
    unfolding sort_rows_def
  proof (elim sorted_wrt_mono_rel [rotated])
    fix a b
    assume s: "set (Array_sort ?cmp out) \<subseteq> ?A"
      and a: "a \<in> set (Array_sort ?cmp out)" and b: "b \<in> set (Array_sort ?cmp out)"
      and n: "\<not> js_positive (?cmp a b)"
    from s a b have "a \<in> ?A" and "b \<in> ?A" by blast+
    from n c [OF this]
    show "if sortDir = ''asc'' then \<not> js_lt (getVal sortKey b) (getVal sortKey a)
          else \<not> js_lt (getVal sortKey a) (getVal sortKey b)"
      by (simp split: if_splits)
  qed
qed

section \<open>The claims\<close>

subsection \<open>The deactivation assessor\<close>



text \<open>
  Claim C9. The record with the counts 0, 0, 1, 0, 0 for the five labels \<open>2019-20\<close> to
  \<open>2023-24\<close>, assessed on the index of those five labels (which is the index
  \<open>allYears\<close> derives from the record): \<open>total5\<close> is 1, \<open>avg5\<close> is 0.2, \<open>zeros\<close> is 4,
  \<open>peak\<close> is 1, the record is flagged, and the reason contains \<open>zeros 4/5\<close> and
  \<open>max/year 1\<close>.
\<close>

theorem scenario_flagged:
  "total5_of (vals_of scenario_rec (last5_of scenario_index)) = Fin 1 \<and>
   avg5_of (total5_of (vals_of scenario_rec (last5_of scenario_index))) (last5_of scenario_index) =
     Fin (2 / 10) \<and>
   zeros_of (vals_of scenario_rec (last5_of scenario_index)) = 4 \<and>
   peak_of (vals_of scenario_rec (last5_of scenario_index)) = Fin 1 \<and>
   flag (assessRecDeact scenario_rec scenario_index) = True \<and>
   str_includes (reason (assessRecDeact scenario_rec scenario_index)) ''zeros 4/5'' \<and>
   str_includes (reason (assessRecDeact scenario_rec scenario_index)) ''max/year 1'' \<and>
   reason (assessRecDeact scenario_rec scenario_index) =
     ''5y total 1 & avg 0.2 (<15, <3); zeros 4/5; max/year 1 (<3)'' \<and>
   allYears [scenario_rec] = scenario_index"
  by code_simp

subsection \<open>The record normalizer\<close>

text \<open>
  Claim C10. A column of the raw row becomes a key of \<open>years\<close> exactly when its name
  contains four digits, a dash and two digits somewhere: the pattern is not anchored. The
  column \<open>xx2019-20yy\<close> is taken as a year column, and \<open>DEPT\<close> is not.
\<close>

theorem tidyRow_year_columns:
  "(k \<in> set (Object_keys (years (tidyRow row))) \<longleftrightarrow>
      k \<in> set (Object_keys row) \<and>
      (\<exists>pre a b c d f g rest. k = pre @ a # b # c # d # CHR ''-'' # f # g # rest \<and>
         is_digit a \<and> is_digit b \<and> is_digit c \<and> is_digit d \<and> is_digit f \<and> is_digit g)) \<and>
   years (tidyRow [(''DEPT'', ''BUS''), (''xx2019-20yy'', ''7'')]) = [(''xx2019-20yy'', Fin 7)]"
proof
  show "k \<in> set (Object_keys (years (tidyRow row))) \<longleftrightarrow>
      k \<in> set (Object_keys row) \<and>
      (\<exists>pre a b c d f g rest. k = pre @ a # b # c # d # CHR ''-'' # f # g # rest \<and>
         is_digit a \<and> is_digit b \<and> is_digit c \<and> is_digit d \<and> is_digit f \<and> is_digit g)"
    unfolding tidyRow_years_keys year_pattern_test_iff by simp
  show "years (tidyRow [(''DEPT'', ''BUS''), (''xx2019-20yy'', ''7'')]) = [(''xx2019-20yy'', Fin 7)]"
    by code_simp
qed

text \<open>
  Claim C3, as stated: every value of \<open>years\<close> is a non-negative integer. It is not: the
  cell \<open>-5\<close> of a year column is the number \<open>-5\<close> in \<open>years\<close>.
\<close>

theorem tidyRow_negative_count:
  "obj_get (years (tidyRow [(''2019-20'', ''-5'')])) ''2019-20'' = Some (Fin (- 5)) \<and>
   \<not> count_value (Fin (- 5))"
  by code_simp

text \<open>
  Claim C3, amended. Every value of \<open>years\<close> is a number other than \<open>NaN\<close>: the number
  that the cell of its year column denotes, whatever its sign and size, and \<open>0\<close> when the
  cell is not numeric (the empty cell denotes \<open>0\<close>). A column that the raw row does not
  have gets no entry in \<open>years\<close>, and reads as \<open>0\<close> under \<open>|| 0\<close> and \<open>?? 0\<close>.
\<close>

theorem tidyRow_years_values:
  "(obj_get (years (tidyRow row)) k = Some v \<longrightarrow>
      v \<noteq> NaN \<and>
      (\<exists>s. obj_get row k = Some s \<and> v = (if js_Number s = NaN then Fin 0 else js_Number s))) \<and>
   (obj_get row k = None \<longrightarrow>
      obj_get (years (tidyRow row)) k = None \<and> or0 (obj_get (years (tidyRow row)) k) = Fin 0 \<and>
      nullish0 (obj_get (years (tidyRow row)) k) = Fin 0)"
proof (intro conjI impI)
  assume a: "obj_get (years (tidyRow row)) k = Some v"
  then have k: "k \<in> set (Object_keys row)" and
    v: "v = js_or0 (case obj_get row k of None \<Rightarrow> Fin 0 | Some s \<Rightarrow> js_Number s)"
    by (auto simp: tidyRow_years_get split: if_splits)
  from k obtain s where s: "obj_get row k = Some s" by (auto simp: obj_get_keys)
  show "v \<noteq> NaN" by (simp add: v js_or0_def truthy_def)
  from s v show "\<exists>s. obj_get row k = Some s \<and> v = (if js_Number s = NaN then Fin 0 else js_Number s)"
    by (auto simp: js_or0_def truthy_def)
next
  assume n: "obj_get row k = None"
  then have "k \<notin> set (Object_keys row)" by (simp add: obj_get_keys)
  then show g: "obj_get (years (tidyRow row)) k = None" by (simp add: tidyRow_years_get)
  then show "or0 (obj_get (years (tidyRow row)) k) = Fin 0"
    and "nullish0 (obj_get (years (tidyRow row)) k) = Fin 0" by simp_all
qed

text \<open>
  A row with a negative cell, a cell that is not numeric and no column \<open>2021-22\<close>: the
  first value is the number of the cell, the second is \<open>0\<close>, the third is absent.
\<close>

theorem tidyRow_years_values_witness:
  "obj_get (years (tidyRow [(''2019-20'', ''-5''), (''2020-21'', ''n/a'')])) ''2019-20'' = Some (Fin (- 5)) \<and>
   (\<exists>s. obj_get [(''2019-20'', ''-5''), (''2020-21'', ''n/a'')] ''2019-20'' = Some s \<and>
        Fin (- 5) = (if js_Number s = NaN then Fin 0 else js_Number s)) \<and>
   obj_get (years (tidyRow [(''2019-20'', ''-5''), (''2020-21'', ''n/a'')])) ''2020-21'' = Some (Fin 0) \<and>
   (\<exists>s. obj_get [(''2019-20'', ''-5''), (''2020-21'', ''n/a'')] ''2020-21'' = Some s \<and>
        Fin 0 = (if js_Number s = NaN then Fin 0 else js_Number s)) \<and>
   js_Number ''n/a'' = NaN \<and>
   obj_get [(''2019-20'', ''-5''), (''2020-21'', ''n/a'')] ''2021-22'' = None \<and>
   obj_get (years (tidyRow [(''2019-20'', ''-5''), (''2020-21'', ''n/a'')])) ''2021-22'' = None"
proof -
  let ?row = "[(''2019-20'', ''-5''), (''2020-21'', ''n/a'')]"
  have a: "obj_get (years (tidyRow ?row)) ''2019-20'' = Some (Fin (- 5))" by code_simp
  have b: "obj_get (years (tidyRow ?row)) ''2020-21'' = Some (Fin 0)" by code_simp
  have c: "js_Number ''n/a'' = NaN" by code_simp
  have h: "obj_get ?row ''2021-22'' = None" by code_simp
  from tidyRow_years_values [of ?row "''2019-20''" "Fin (- 5)"] a
  have a': "\<exists>s. obj_get ?row ''2019-20'' = Some s \<and>
        Fin (- 5) = (if js_Number s = NaN then Fin 0 else js_Number s)" by blast
  from tidyRow_years_values [of ?row "''2020-21''" "Fin 0"] b
  have b': "\<exists>s. obj_get ?row ''2020-21'' = Some s \<and>
        Fin 0 = (if js_Number s = NaN then Fin 0 else js_Number s)" by blast
  from tidyRow_years_values [of ?row "''2021-22''" NaN] h
  have h': "obj_get (years (tidyRow ?row)) ''2021-22'' = None" by blast
  from a a' b b' c h h' show ?thesis by blast
qed

subsection \<open>The year index and the visible range\<close>

text \<open>
  Claim C5. Resolving the range with its two limits exchanged gives the same visible years:
  for labels of the index, for labels outside it, and for limits not yet set.
\<close>

theorem visibleYears_order_insensitive:
  "visibleYears ys a b = visibleYears ys b a"
  by (auto simp: visibleYears_def Let_def)

text \<open>
  Claim C6. When the start label or the end label is not in the index, the visible years
  are the whole index. (\<open>visibleYears\<close> has no failing branch: it returns a list in every
  case.)
\<close>

theorem visibleYears_absent_label:
  "s \<notin> set ys \<or> e \<notin> set ys \<Longrightarrow> visibleYears ys (Some s) (Some e) = ys"
  by (auto simp: visibleYears_def Let_def indexOf_absent)

theorem visibleYears_absent_label_witness:
  "visibleYears [''2019-20'', ''2020-21''] (Some ''2030-31'') (Some ''2020-21'') =
     [''2019-20'', ''2020-21'']"
proof -
  have h: "''2030-31'' \<notin> set [''2019-20'', ''2020-21''] \<or> ''2020-21'' \<notin> set [''2019-20'', ''2020-21'']"
    by simp
  from visibleYears_absent_label [OF h] show ?thesis .
qed

subsection \<open>The pipeline\<close>



text \<open>
  Claim C7. The flag and the reason of a row of the view are those of \<open>assessRecDeact\<close> on
  the record and the full year index of the record set: they are the same for any two
  choices of the visible range.
\<close>

theorem recDeact_independent_of_range:
  "recDeact (attach (visibleYears (allYears rows) s1 e1) (allYears rows) r) =
     recDeact (attach (visibleYears (allYears rows) s2 e2) (allYears rows) r) \<and>
   recDeactReason (attach (visibleYears (allYears rows) s1 e1) (allYears rows) r) =
     recDeactReason (attach (visibleYears (allYears rows) s2 e2) (allYears rows) r) \<and>
   recDeact (attach (visibleYears (allYears rows) s1 e1) (allYears rows) r) =
     flag (assessRecDeact r (allYears rows)) \<and>
   recDeactReason (attach (visibleYears (allYears rows) s1 e1) (allYears rows) r) =
     reason (assessRecDeact r (allYears rows))"
  by (simp add: attach_def Let_def)


subsection \<open>The export\<close>

text \<open>
  Claim C2 asks that every text field with a delimiter or a quote in it is quoted in the
  export, and that reading the export back recovers the year counts. The export of a
  program of the department \<open>Arts, Media\<close>: the title and the award type are quoted, the
  department is written as it is, and the line has one field more than the header.
\<close>

theorem export_dept_unquoted:
  "downloadFilteredCsv comma_view (allYears comma_rows) =
     export_header @ [CHR 0x0A] @
     ''Arts, Media,201,'' @ [dquote] @ ''Film'' @ [dquote] @ '','' @ [dquote] @ ''AA'' @ [dquote] @
     '',5,5.00,No,5''"
  by code_simp

text \<open>
  Read back, the column \<open>2023-24\<close> of that line holds the field \<open>No\<close>, which \<open>tidyRow\<close>
  normalizes to \<open>0\<close>; the count of the row was \<open>5\<close>.
\<close>

lemma export_reread_year:
  "years (hd comma_view) = [(''2023-24'', Fin 5)] \<and>
   csv_fields False [] (export_line (allYears comma_rows) (hd comma_view)) =
     [''Arts'', '' Media'', ''201'', ''Film'', ''AA'', ''5'', ''5.00'', ''No'', ''5''] \<and>
   years (tidyRow (read_row export_header (export_line (allYears comma_rows) (hd comma_view)))) =
     [(''2023-24'', Fin 0)]"
  by code_simp

end
